theory Spec2Isabelle
  imports Complex_Main "HOL-Library.Word"
begin

section \<open>The prediction view of \<open>WebApplication/App/views.py\<close>\<close>

text \<open>
  The development embeds the class \<open>Predict\<close> of \<open>views.py\<close>: its constructor, its
  \<open>post\<close> handler and the static method \<open>classtoemotion\<close>. The file names
  \<open>APIView\<close> and \<open>load_model\<close> without importing them; they are read as
  \<open>rest_framework.views.APIView\<close> and \<open>keras.models.load_model\<close>.
\<close>

subsection \<open>Python values\<close>

text \<open>
  An exception is either an instance of \<open>Exception\<close>, which the clause
  \<open>except Exception as e\<close> catches and whose \<open>str(e)\<close> is the carried text, or one
  that derives from \<open>BaseException\<close> only (\<open>KeyboardInterrupt\<close>, \<open>SystemExit\<close>),
  which that clause lets through.
\<close>

datatype py_exn = PyException string | PyBaseException string

type_synonym bytes = "8 word list"

subsection \<open>\<open>Predict.classtoemotion\<close>\<close>

text \<open>The dictionary literal of the method, in the order it is written.\<close>

definition label_items :: "(int \<times> string) list" where
  "label_items =
     [(0, ''neutral''), (1, ''calm''), (2, ''happy''), (3, ''sad''),
      (4, ''angry''), (5, ''fearful''), (6, ''disgust''), (7, ''surprised'')]"

definition label_map :: "int \<rightharpoonup> string" where
  "label_map = map_of label_items"

text \<open>\<open>label_map.get(pred, 'unknown')\<close>: the default stands in for a missing key.\<close>

definition classtoemotion :: "int \<Rightarrow> string" where
  "classtoemotion pred = (case label_map pred of Some v \<Rightarrow> v | None \<Rightarrow> ''unknown'')"

subsection \<open>The NumPy operations the handler calls\<close>

text \<open>
  An array is its shape and its elements in row-major order. Scores and coefficients
  are real numbers: rounding and NaN are outside the model.
\<close>

record ndarray =
  shape :: "nat list"
  data :: "real list"

definition well_shaped :: "ndarray \<Rightarrow> bool" where
  "well_shaped a = (length (data a) = prod_list (shape a))"

text \<open>
  \<open>views.py\<close> does not say which NumPy it runs on, and one call of the handler depends
  on it: up to NumPy 1.17 \<open>expand_dims\<close> with an axis beyond the array's rank warns and
  appends the axis, from NumPy 1.18 on it raises \<open>AxisError\<close>.
\<close>

datatype numpy_version = Before_1_18 | Since_1_18

definition digit_char :: "nat \<Rightarrow> char" where
  "digit_char n = ''0123456789'' ! (n mod 10)"

fun str_nat :: "nat \<Rightarrow> string" where
  "str_nat n = (if n < 10 then [digit_char n] else str_nat (n div 10) @ [digit_char (n mod 10)])"

definition AxisError :: "nat \<Rightarrow> nat \<Rightarrow> py_exn" where
  "AxisError axis ndim =
     PyException (''axis '' @ str_nat axis @ '' is out of bounds for array of dimension ''
                  @ str_nat ndim)"

text \<open>
  \<open>np.expand_dims(a, axis)\<close> for an axis that is not negative (the handler passes 2
  and 0). The new axis must lie inside the result, whose rank is one more than the
  rank of \<open>a\<close>. Python's slices \<open>shape[:axis]\<close> and \<open>shape[axis:]\<close> stop at the end
  of the tuple, as \<open>take\<close> and \<open>drop\<close> do.
\<close>

definition np_expand_dims :: "numpy_version \<Rightarrow> ndarray \<Rightarrow> nat \<Rightarrow> py_exn + ndarray" where
  "np_expand_dims v a axis =
     (if v = Since_1_18 \<and> length (shape a) < axis
      then Inl (AxisError axis (length (shape a) + 1))
      else Inr (a\<lparr>shape := take axis (shape a) @ [1] @ drop axis (shape a)\<rparr>))"

text \<open>All index tuples of a shape in row-major order, and the offset of one of them.\<close>

fun indices :: "nat list \<Rightarrow> nat list list" where
  "indices [] = [[]]"
| "indices (n # ns) = concat (map (\<lambda>i. map ((#) i) (indices ns)) [0..<n])"

definition offset :: "nat list \<Rightarrow> nat list \<Rightarrow> nat" where
  "offset shp idx = foldl (\<lambda>acc (n, i). acc * n + i) 0 (zip shp idx)"

text \<open>The attribute \<open>.T\<close>: the axes in reverse order.\<close>

definition np_T :: "ndarray \<Rightarrow> ndarray" where
  "np_T a =
     \<lparr>shape = rev (shape a),
      data = map (\<lambda>idx. data a ! offset (shape a) (rev idx)) (indices (rev (shape a)))\<rparr>"

text \<open>
  \<open>np.mean(a, axis=0)\<close>: the first axis is averaged away. On an empty first axis
  NumPy warns and yields NaN; the shape is the same, and the elements of the model
  mean nothing there.
\<close>

definition np_mean_axis0 :: "ndarray \<Rightarrow> py_exn + ndarray" where
  "np_mean_axis0 a =
     (case shape a of
        [] \<Rightarrow> Inl (AxisError 0 0)
      | n # rest \<Rightarrow>
          Inr \<lparr>shape = rest,
               data = map (\<lambda>j. (\<Sum>i\<leftarrow>[0..<n]. data a ! (i * prod_list rest + j)) / real n)
                          [0..<prod_list rest]\<rparr>)"

text \<open>
  \<open>np.argmax\<close> over one run of scores: a scan from the left that moves to a new
  index only on a strictly larger score.
\<close>

fun argmax_scan :: "real list \<Rightarrow> nat \<Rightarrow> nat \<Rightarrow> real \<Rightarrow> nat" where
  "argmax_scan [] i best mx = best"
| "argmax_scan (x # xs) i best mx =
     (if mx < x then argmax_scan xs (Suc i) i x else argmax_scan xs (Suc i) best mx)"

definition np_argmax :: "real list \<Rightarrow> py_exn + nat" where
  "np_argmax xs =
     (case xs of
        [] \<Rightarrow> Inl (PyException ''attempt to get argmax of an empty sequence'')
      | x # rest \<Rightarrow> Inr (argmax_scan rest 1 0 x))"

text \<open>
  \<open>np.argmax(preds, axis=1)[0]\<close>, as a key of the label dictionary. Below rank 2
  there is no axis 1; an empty axis 1 has no maximum; an empty batch has no element 0;
  above rank 2 the element 0 is an array again, which \<open>label_map.get\<close> cannot hash.
\<close>

definition np_argmax_axis1_item0 :: "ndarray \<Rightarrow> py_exn + int" where
  "np_argmax_axis1_item0 preds =
     (case shape preds of
        [] \<Rightarrow> Inl (AxisError 1 0)
      | [b] \<Rightarrow> Inl (AxisError 1 1)
      | b # n # rest \<Rightarrow>
          if n = 0 then Inl (PyException ''attempt to get argmax of an empty sequence'')
          else if b = 0
            then Inl (PyException ''index 0 is out of bounds for axis 0 with size 0'')
          else if rest \<noteq> [] then Inl (PyException (''unhashable type: '' @ [CHR 0x27] @ ''numpy.ndarray'' @ [CHR 0x27]))
          else (case np_argmax (take n (data preds)) of
                  Inl e \<Rightarrow> Inl e
                | Inr k \<Rightarrow> Inr (int k)))"

subsection \<open>The libraries behind the handler\<close>

text \<open>
  A loaded model is its forward pass \<open>model.predict\<close>. Decoding, the MFCC transform
  and the loading of the model file are library code: the handler is embedded over
  any behaviour of theirs, an exception or a value. So are the failures of the
  operating system when the upload is saved: \<open>open_error\<close> is the exception of
  \<open>open(tmp_path, 'wb+')\<close>, if it raises; \<open>write_error\<close> is the exception of one
  turn of the loop over the chunks (reading the chunk or writing it), given what the
  file holds so far; \<open>close_error\<close> is the exception of closing the file at the end
  of the \<open>with\<close> statement.
\<close>

type_synonym model = "ndarray \<Rightarrow> py_exn + ndarray"

record env =
  numpy :: numpy_version
  MEDIA_ROOT :: string
  MODEL_ROOT :: string
  load_model :: "string \<Rightarrow> py_exn + model"
  librosa_load :: "string \<Rightarrow> bytes \<Rightarrow> py_exn + (real list \<times> nat)"
  librosa_feature_mfcc :: "real list \<Rightarrow> nat \<Rightarrow> nat \<Rightarrow> py_exn + ndarray"
  open_error :: "string \<Rightarrow> py_exn option"
  write_error :: "string \<Rightarrow> bytes \<Rightarrow> bytes \<Rightarrow> py_exn option"
  close_error :: "string \<Rightarrow> bytes \<Rightarrow> py_exn option"

definition os_path_join :: "string \<Rightarrow> string \<Rightarrow> string" where
  "os_path_join a b =
     (if b \<noteq> [] \<and> hd b = CHR ''/'' then b
      else if a = [] \<or> last a = CHR ''/'' then a @ b
      else a @ ''/'' @ b)"

subsection \<open>Files, requests and responses\<close>

text \<open>
  The media directory is a map from paths to file contents; directories are not
  modelled. Removing a file that exists succeeds.
\<close>

type_synonym filesystem = "string \<rightharpoonup> bytes"

record uploaded_file =
  name :: string
  chunks :: "bytes list"

record request =
  FILES :: "string \<rightharpoonup> uploaded_file"

record response =
  body :: "(string \<times> string) list"
  status :: nat

definition HTTP_200_OK :: nat where
  "HTTP_200_OK = 200"

definition HTTP_400_BAD_REQUEST :: nat where
  "HTTP_400_BAD_REQUEST = 400"

definition Response :: "(string \<times> string) list \<Rightarrow> nat \<Rightarrow> response" where
  "Response d s = \<lparr>body = d, status = s\<rparr>"

text \<open>
  \<open>not audio_file\<close>: true of \<open>None\<close>, and of an uploaded file whose name is empty
  (Django's \<open>File.__bool__\<close> is \<open>bool(self.name)\<close>).
\<close>

definition not_file :: "uploaded_file option \<Rightarrow> bool" where
  "not_file audio_file = (case audio_file of None \<Rightarrow> True | Some f \<Rightarrow> name f = [])"

subsection \<open>\<open>Predict.post\<close>: saving the upload\<close>

text \<open>
  Lines 229 to 231, which stand before the \<open>try\<close> statement. The loop writes the
  chunks in turn; when a turn raises, the loop ends with what was written before it.
\<close>

fun write_chunks :: "env \<Rightarrow> string \<Rightarrow> bytes list \<Rightarrow> bytes \<Rightarrow> py_exn option \<times> bytes" where
  "write_chunks E tmp_path [] written = (None, written)"
| "write_chunks E tmp_path (chunk # rest) written =
     (case write_error E tmp_path written chunk of
        Some e \<Rightarrow> (Some e, written)
      | None \<Rightarrow> write_chunks E tmp_path rest (written @ chunk))"

text \<open>
  When \<open>open\<close> raises, no file is made and the file system is as before. Once
  \<open>open\<close> has returned, the mode \<open>wb+\<close> has made the file or emptied it: the file
  is there whether the loop and the closing of the file succeed or raise. The result is
  the exception, if any, and the file system.
\<close>

definition save_upload :: "env \<Rightarrow> string \<Rightarrow> bytes list \<Rightarrow> filesystem \<Rightarrow> py_exn option \<times> filesystem" where
  "save_upload E tmp_path cs fs =
     (case open_error E tmp_path of
        Some e \<Rightarrow> (Some e, fs)
      | None \<Rightarrow>
          (case write_chunks E tmp_path cs [] of
             (Some e, written) \<Rightarrow> (Some e, fs(tmp_path \<mapsto> written))
           | (None, written) \<Rightarrow>
               (case close_error E tmp_path written of
                  Some e \<Rightarrow> (Some e, fs(tmp_path \<mapsto> written))
                | None \<Rightarrow> (None, fs(tmp_path \<mapsto> written)))))"

subsection \<open>\<open>Predict.post\<close>: the body of the \<open>try\<close> statement\<close>

text \<open>
  Lines 234 to 237, the specification's \<open>extract\<close> (the name is an Isabelle
  command, hence the suffix): decode the temporary file at its native rate (\<open>sr=None\<close>), take
  40 MFCCs at that rate, average over the frames, add the two axes.
\<close>

definition extract_features :: "env \<Rightarrow> string \<Rightarrow> filesystem \<Rightarrow> py_exn + ndarray" where
  "extract_features E tmp_path fs =
     (case fs tmp_path of
        None \<Rightarrow> Inl (PyException (''[Errno 2] No such file or directory: '' @ tmp_path))
      | Some content \<Rightarrow>
     (case librosa_load E tmp_path content of
        Inl e \<Rightarrow> Inl e
      | Inr (samples, sampling_rate) \<Rightarrow>
          (case librosa_feature_mfcc E samples sampling_rate 40 of
             Inl e \<Rightarrow> Inl e
           | Inr m \<Rightarrow>
               (case np_mean_axis0 (np_T m) of
                  Inl e \<Rightarrow> Inl e
                | Inr mfccs \<Rightarrow>
                    (case np_expand_dims (numpy E) mfccs 2 of
                       Inl e \<Rightarrow> Inl e
                     | Inr features \<Rightarrow> np_expand_dims (numpy E) features 0)))))"

text \<open>Lines 238 to 240: forward pass, class selection, label.\<close>

definition infer :: "model \<Rightarrow> ndarray \<Rightarrow> py_exn + string" where
  "infer self_model features =
     (case self_model features of
        Inl e \<Rightarrow> Inl e
      | Inr preds \<Rightarrow>
          (case np_argmax_axis1_item0 preds of
             Inl e \<Rightarrow> Inl e
           | Inr predicted_class \<Rightarrow> Inr (classtoemotion predicted_class)))"

definition try_body :: "env \<Rightarrow> model \<Rightarrow> string \<Rightarrow> filesystem \<Rightarrow> py_exn + string" where
  "try_body E self_model tmp_path fs =
     (case extract_features E tmp_path fs of
        Inl e \<Rightarrow> Inl e
      | Inr features \<Rightarrow> infer self_model features)"

subsection \<open>\<open>Predict.__init__\<close> and \<open>Predict.post\<close>\<close>

record Predict =
  model :: model

text \<open>
  The constructor loads the model file. The list is a log of the calls of
  \<open>load_model\<close>, one entry for each call, whether it returns or raises.
\<close>

definition model_path :: "env \<Rightarrow> string" where
  "model_path E = os_path_join (MODEL_ROOT E) ''Emotion_Voice_Detection_Model.h5''"

definition Predict_init :: "env \<Rightarrow> string list \<Rightarrow> (py_exn + Predict) \<times> string list" where
  "Predict_init E load_calls =
     (case load_model E (model_path E) of
        Inl e \<Rightarrow> (Inl e, load_calls @ [model_path E])
      | Inr m \<Rightarrow> (Inr \<lparr>model = m\<rparr>, load_calls @ [model_path E]))"

text \<open>
  The handler returns a response or lets an exception through, and leaves a file
  system behind. The upload is saved before the \<open>try\<close> statement: an exception
  there leaves the handler at once, past the \<open>except\<close> and \<open>finally\<close> clauses.
  The \<open>finally\<close> clause runs on every way out of the \<open>try\<close> statement.
\<close>

definition post :: "env \<Rightarrow> Predict \<Rightarrow> request \<Rightarrow> filesystem \<Rightarrow> (py_exn + response) \<times> filesystem" where
  "post E self request fs =
     (let audio_file = FILES request ''file'' in
      if not_file audio_file
      then (Inr (Response [(''error'', ''No audio file provided'')] HTTP_400_BAD_REQUEST), fs)
      else
        let tmp_path = os_path_join (MEDIA_ROOT E) (name (the audio_file))
        in (case save_upload E tmp_path (chunks (the audio_file)) fs of
              (Some e, fs1) \<Rightarrow> (Inl e, fs1)
            | (None, fs1) \<Rightarrow>
                let fs2 = (if tmp_path \<in> dom fs1 then fs1(tmp_path := None) else fs1)
                in (case try_body E (model self) tmp_path fs1 of
                      Inr emotion_label \<Rightarrow>
                        (Inr (Response [(''prediction'', emotion_label)] HTTP_200_OK), fs2)
                    | Inl (PyException e) \<Rightarrow>
                        (Inr (Response [(''error'', e)] HTTP_400_BAD_REQUEST), fs2)
                    | Inl (PyBaseException e) \<Rightarrow> (Inl (PyBaseException e), fs2))))"

subsection \<open>The process that serves requests\<close>

text \<open>
  \<open>views.py\<close> keeps no model outside the view object. Django's \<open>as_view\<close> builds
  the view object anew for each request and then calls its handler; an exception of
  the constructor ends the request before the handler runs.
\<close>

record process =
  files :: filesystem
  load_calls :: "string list"

definition dispatch :: "env \<Rightarrow> request \<Rightarrow> process \<Rightarrow> (py_exn + response) \<times> process" where
  "dispatch E request p =
     (case Predict_init E (load_calls p) of
        (Inl e, calls) \<Rightarrow> (Inl e, p\<lparr>load_calls := calls\<rparr>)
      | (Inr self, calls) \<Rightarrow>
          (case post E self request (files p) of
             (r, fs) \<Rightarrow> (r, \<lparr>files = fs, load_calls = calls\<rparr>)))"

fun serve :: "env \<Rightarrow> request list \<Rightarrow> process \<Rightarrow> (py_exn + response) list \<times> process" where
  "serve E [] p = ([], p)"
| "serve E (request # requests) p =
     (case dispatch E request p of
        (r, p1) \<Rightarrow> (case serve E requests p1 of (rs, p2) \<Rightarrow> (r # rs, p2)))"

subsection \<open>Concrete runs\<close>

text \<open>The status classes of HTTP.\<close>

definition client_error_class :: "nat \<Rightarrow> bool" where
  "client_error_class s = (400 \<le> s \<and> s \<le> 499)"

definition server_error_class :: "nat \<Rightarrow> bool" where
  "server_error_class s = (500 \<le> s \<and> s \<le> 599)"

text \<open>
  A WAVE file of 44 bytes: the header of a mono 16-bit stream at 16000 Hz and no
  sample after it.
\<close>

definition wav_header_only :: bytes where
  "wav_header_only =
     [0x52, 0x49, 0x46, 0x46, 0x24, 0, 0, 0, 0x57, 0x41, 0x56, 0x45,
      0x66, 0x6D, 0x74, 0x20, 0x10, 0, 0, 0, 1, 0, 1, 0,
      0x80, 0x3E, 0, 0, 0, 0x7D, 0, 0, 2, 0, 0x10, 0,
      0x64, 0x61, 0x74, 0x61, 0, 0, 0, 0]"

text \<open>
  Stand-ins for the libraries: a decoder that rejects the empty file and finds no
  sample in the header-only file, an MFCC transform that returns a matrix of
  \<open>n_mfcc\<close> rows and one column for each frame of 512 samples, a forward pass that
  accepts the shape (1, 40, 1), and one that fails. In \<open>example_env\<close> the upload is
  always saved.
\<close>

definition example_load :: "string \<Rightarrow> bytes \<Rightarrow> py_exn + (real list \<times> nat)" where
  "example_load path content =
     (if content = [] then Inl (PyException ''Format not recognised.'')
      else if content = wav_header_only then Inr ([], 16000)
      else Inr (map (\<lambda>b. real (unat b) / 256) content, 16000))"

definition example_mfcc :: "real list \<Rightarrow> nat \<Rightarrow> nat \<Rightarrow> py_exn + ndarray" where
  "example_mfcc samples sr n_mfcc =
     Inr \<lparr>shape = [n_mfcc, 1 + length samples div 512],
          data = replicate (n_mfcc * (1 + length samples div 512)) 0\<rparr>"

definition example_model :: model where
  "example_model features =
     (if shape features = [1, 40, 1]
      then Inr \<lparr>shape = [1, 8], data = [0.5, 0.1, 0.1, 0.1, 0.05, 0.05, 0.05, 0.05]\<rparr>
      else Inl (PyException ''expected shape (None, 40, 1)''))"

definition failing_model :: model where
  "failing_model features = Inl (PyException ''forward pass failed'')"

definition example_env :: "numpy_version \<Rightarrow> (py_exn + model) \<Rightarrow> env" where
  "example_env v loaded =
     \<lparr>numpy = v, MEDIA_ROOT = ''/srv/media'', MODEL_ROOT = ''/srv/models'',
      load_model = (\<lambda>path. loaded),
      librosa_load = example_load, librosa_feature_mfcc = example_mfcc,
      open_error = (\<lambda>path. None), write_error = (\<lambda>path written chunk. None),
      close_error = (\<lambda>path written. None)\<rparr>"

text \<open>
  Three environments in which a request fails outside the reach of the \<open>except\<close>
  clause: the temporary path cannot be opened for writing; the device is full once
  the file holds 44 bytes; the worker is stopped while the upload is decoded, which
  raises \<open>SystemExit\<close> in the handler.
\<close>

definition read_only_env :: env where
  "read_only_env =
     (example_env Before_1_18 (Inr example_model))
       \<lparr>open_error := (\<lambda>path. Some (PyException (''[Errno 13] Permission denied: '' @ path)))\<rparr>"

definition full_disk_env :: env where
  "full_disk_env =
     (example_env Before_1_18 (Inr example_model))
       \<lparr>write_error := (\<lambda>path written chunk.
          if 44 < length written + length chunk
          then Some (PyException ''[Errno 28] No space left on device'') else None)\<rparr>"

definition stopped_worker_env :: env where
  "stopped_worker_env =
     (example_env Before_1_18 (Inr example_model))
       \<lparr>librosa_load := (\<lambda>path content. Inl (PyBaseException ''SystemExit''))\<rparr>"

definition upload :: "string \<Rightarrow> bytes list \<Rightarrow> request" where
  "upload n cs = \<lparr>FILES = [''file'' \<mapsto> \<lparr>name = n, chunks = cs\<rparr>]\<rparr>"

section \<open>Properties\<close>

subsection \<open>The label table\<close>

lemma label_map_outside: "i < 0 \<or> 7 < i \<Longrightarrow> label_map i = None"
  by (auto simp: label_map_def label_items_def)

lemma label_map_inside:
  "0 \<le> i \<Longrightarrow> i \<le> 7 \<Longrightarrow> \<exists>v. label_map i = Some v \<and> v \<in> snd ` set label_items"
proof -
  assume "0 \<le> i" "i \<le> 7"
  then have "i = 0 \<or> i = 1 \<or> i = 2 \<or> i = 3 \<or> i = 4 \<or> i = 5 \<or> i = 6 \<or> i = 7"
    by arith
  then show ?thesis
    by (auto simp: label_map_def label_items_def)
qed

text \<open>
  Claim C1. For every integer index \<open>classtoemotion\<close> returns the literal table
  0 neutral, 1 calm, 2 happy, 3 sad, 4 angry, 5 fearful, 6 disgust, 7 surprised, and the
  sentinel \<open>unknown\<close> for every integer outside the range 0 to 7, negative ones
  included. The function is total: no index makes it raise.
\<close>

theorem classtoemotion_table:
  "classtoemotion 0 = ''neutral'' \<and> classtoemotion 1 = ''calm'' \<and>
   classtoemotion 2 = ''happy'' \<and> classtoemotion 3 = ''sad'' \<and>
   classtoemotion 4 = ''angry'' \<and> classtoemotion 5 = ''fearful'' \<and>
   classtoemotion 6 = ''disgust'' \<and> classtoemotion 7 = ''surprised'' \<and>
   (\<forall>i. i < 0 \<or> 7 < i \<longrightarrow> classtoemotion i = ''unknown'')"
  by (simp add: classtoemotion_def label_map_outside)
     (simp add: label_map_def label_items_def)

theorem classtoemotion_table_witness:
  "classtoemotion 3 = ''sad'' \<and> classtoemotion (- 1) = ''unknown'' \<and>
   classtoemotion 8 = ''unknown''"
  using classtoemotion_table by simp

subsection \<open>Class selection\<close>

text \<open>
  The scan keeps, for the scores read so far, the first index that holds their maximum.
\<close>

lemma argmax_scan_spec:
  "best < length pre \<Longrightarrow> mx = pre ! best \<Longrightarrow> (\<forall>j<length pre. pre ! j \<le> mx) \<Longrightarrow>
   (\<forall>j<best. pre ! j < mx) \<Longrightarrow> r = argmax_scan xs (length pre) best mx \<Longrightarrow>
   r < length (pre @ xs) \<and> (\<forall>j<length (pre @ xs). (pre @ xs) ! j \<le> (pre @ xs) ! r) \<and>
   (\<forall>j<r. (pre @ xs) ! j < (pre @ xs) ! r)"
proof (induction xs arbitrary: pre best mx)
  case Nil
  then show ?case by simp
next
  case (Cons x xs)
  let ?pre = "pre @ [x]"
  show ?case
  proof (cases "mx < x")
    case True
    have r: "r = argmax_scan xs (length ?pre) (length pre) x"
      using Cons.prems(5) True by simp
    have a: "length pre < length ?pre" by simp
    have b: "x = ?pre ! length pre" by simp
    have c: "\<forall>j<length ?pre. ?pre ! j \<le> x"
      using Cons.prems(3) True by (auto simp: nth_append less_Suc_eq)
    have d: "\<forall>j<length pre. ?pre ! j < x"
      using Cons.prems(3) True by (auto simp: nth_append)
    from Cons.IH[OF a b c d r] show ?thesis by simp
  next
    case False
    have r: "r = argmax_scan xs (length ?pre) best mx"
      using Cons.prems(5) False by simp
    have a: "best < length ?pre" using Cons.prems(1) by simp
    have b: "mx = ?pre ! best" using Cons.prems(1,2) by (simp add: nth_append)
    have c: "\<forall>j<length ?pre. ?pre ! j \<le> mx"
      using Cons.prems(3) False by (auto simp: nth_append less_Suc_eq)
    have d: "\<forall>j<best. ?pre ! j < mx"
      using Cons.prems(1,4) by (auto simp: nth_append)
    from Cons.IH[OF a b c d r] show ?thesis by simp
  qed
qed

lemma np_argmax_spec:
  assumes "xs \<noteq> []"
  shows "\<exists>r. np_argmax xs = Inr r \<and> r < length xs \<and> (\<forall>j<length xs. xs ! j \<le> xs ! r) \<and>
             (\<forall>j<r. xs ! j < xs ! r)"
proof -
  obtain x rest where xs: "xs = x # rest" using assms by (cases xs) auto
  have "argmax_scan rest (length [x]) 0 ([x] ! 0) < length ([x] @ rest) \<and>
        (\<forall>j<length ([x] @ rest). ([x] @ rest) ! j \<le> ([x] @ rest) ! argmax_scan rest (length [x]) 0 ([x] ! 0)) \<and>
        (\<forall>j<argmax_scan rest (length [x]) 0 ([x] ! 0). ([x] @ rest) ! j < ([x] @ rest) ! argmax_scan rest (length [x]) 0 ([x] ! 0))"
    by (rule argmax_scan_spec[where pre="[x]" and best=0 and mx="[x] ! 0"]) auto
  then show ?thesis by (simp add: np_argmax_def xs)
qed

lemma item0_row:
  assumes "shape preds = [b, n]" "0 < b" "0 < n" "n \<le> length (data preds)"
  shows "\<exists>k. np_argmax_axis1_item0 preds = Inr (int k) \<and> k < n \<and>
             (\<forall>j<n. data preds ! j \<le> data preds ! k) \<and> (\<forall>j<k. data preds ! j < data preds ! k)"
proof -
  let ?row = "take n (data preds)"
  have len: "length ?row = n" using assms(4) by simp
  then have "?row \<noteq> []" using assms(3) by auto
  from np_argmax_spec[OF this] obtain r where r: "np_argmax ?row = Inr r" "r < length ?row"
    "\<forall>j<length ?row. ?row ! j \<le> ?row ! r" "\<forall>j<r. ?row ! j < ?row ! r" by blast
  have "np_argmax_axis1_item0 preds = Inr (int r)"
    using assms r(1) by (simp add: np_argmax_axis1_item0_def)
  moreover have "r < n" using r(2) len by simp
  moreover have "\<forall>j<n. data preds ! j \<le> data preds ! r" using r(3) \<open>r < n\<close> len by simp
  moreover have "\<forall>j<r. data preds ! j < data preds ! r" using r(4) \<open>r < n\<close> by simp
  ultimately show ?thesis by blast
qed

lemma all_less_8: "(\<forall>j<8. P (j::nat)) = (P 0 \<and> P 1 \<and> P 2 \<and> P 3 \<and> P 4 \<and> P 5 \<and> P 6 \<and> P 7)"
proof -
  have "\<And>j::nat. j < 8 \<longleftrightarrow> j = 0 \<or> j = 1 \<or> j = 2 \<or> j = 3 \<or> j = 4 \<or> j = 5 \<or> j = 6 \<or> j = 7"
    by arith
  then show ?thesis by auto
qed

text \<open>
  Claim C4. When several classes share the maximal score, \<open>np.argmax(preds, axis=1)[0]\<close>
  returns the lowest of their indices: whichever index \<open>i\<close> of the first row holds a
  maximal score, the selected index holds the same score and is not above \<open>i\<close>.
\<close>

theorem argmax_lowest_index:
  assumes "shape preds = [b, n]" "0 < b" "n \<le> length (data preds)"
    and "i < n" "\<forall>j<n. data preds ! j \<le> data preds ! i"
  shows "\<exists>k. np_argmax_axis1_item0 preds = Inr (int k) \<and> k \<le> i \<and>
             data preds ! k = data preds ! i"
proof -
  have "0 < n" using assms(4) by simp
  from item0_row[OF assms(1,2) this assms(3)] obtain k where
    k: "np_argmax_axis1_item0 preds = Inr (int k)" "k < n"
       "\<forall>j<n. data preds ! j \<le> data preds ! k" "\<forall>j<k. data preds ! j < data preds ! k"
    by blast
  have eq: "data preds ! k = data preds ! i"
    using k(2,3) assms(4,5) by (meson order_antisym)
  have "k \<le> i"
  proof (rule ccontr)
    assume "\<not> k \<le> i"
    then have "i < k" by simp
    with k(4) have "data preds ! i < data preds ! k" by blast
    with eq show False by simp
  qed
  with k(1) eq show ?thesis by blast
qed

theorem argmax_lowest_index_witness:
  "\<exists>k. np_argmax_axis1_item0 \<lparr>shape = [1, 8], data = [0.1, 0.3, 0, 0.3, 0, 0, 0.3, 0]\<rparr> = Inr (int k) \<and>
       k \<le> 3 \<and> k \<le> 6 \<and> [0.1, 0.3, 0, 0.3, 0, 0, 0.3, 0::real] ! k = 0.3"
proof -
  let ?p = "\<lparr>shape = [1, 8], data = [0.1, 0.3, 0, 0.3, 0, 0, 0.3, 0]\<rparr>"
  have h: "\<forall>j<8. data ?p ! j \<le> data ?p ! 3" by (simp add: all_less_8)
  from argmax_lowest_index[of ?p 1 8 3] h
  obtain k where "np_argmax_axis1_item0 ?p = Inr (int k)" "k \<le> 3" "data ?p ! k = data ?p ! 3"
    by auto
  then show ?thesis by auto
qed

text \<open>
  Claim C3. Whatever the features, when the forward pass returns scores of width 8 for
  a batch that is not empty, lines 238 to 240 yield one of the eight labels of the table
  and never the sentinel \<open>unknown\<close>.
\<close>

theorem infer_known_label:
  assumes "self_model features = Inr preds"
    and "shape preds = [b, 8]" "0 < b" "well_shaped preds"
  shows "\<exists>l. infer self_model features = Inr l \<and> l \<in> snd ` set label_items \<and> l \<noteq> ''unknown''"
proof -
  have "length (data preds) = b * 8" using assms(2,4) by (simp add: well_shaped_def)
  then have "8 \<le> length (data preds)" using assms(3) by simp
  from item0_row[OF assms(2,3) _ this] obtain k where
    k: "np_argmax_axis1_item0 preds = Inr (int k)" "k < 8" by auto
  from k(2) have "0 \<le> int k" "int k \<le> 7" by simp_all
  from label_map_inside[OF this] obtain v where
    v: "label_map (int k) = Some v" "v \<in> snd ` set label_items" by blast
  have "infer self_model features = Inr v"
    using assms(1) k(1) v(1) by (simp add: infer_def classtoemotion_def)
  moreover have "v \<noteq> ''unknown''" using v(2) by (auto simp: label_items_def)
  ultimately show ?thesis using v(2) by blast
qed

theorem infer_known_label_witness:
  "\<exists>l. infer (\<lambda>f. Inr \<lparr>shape = [1, 8], data = [0, 0, 0.9, 0, 0, 0, 0.1, 0]\<rparr>)
             \<lparr>shape = [1, 40, 1], data = replicate 40 0\<rparr> = Inr l \<and>
       l \<in> snd ` set label_items \<and> l \<noteq> ''unknown''"
  using infer_known_label
    [of "\<lambda>f. Inr \<lparr>shape = [1, 8], data = [0, 0, 0.9, 0, 0, 0, 0.1, 0]\<rparr>"
        "\<lparr>shape = [1, 40, 1], data = replicate 40 0\<rparr>"
        "\<lparr>shape = [1, 8], data = [0, 0, 0.9, 0, 0, 0, 0.1, 0]\<rparr>" 1]
  by (simp add: well_shaped_def)

subsection \<open>The responses of the handler\<close>

lemma classtoemotion_range: "classtoemotion i \<in> snd ` set label_items \<or> classtoemotion i = ''unknown''"
proof (cases "label_map i")
  case None
  then show ?thesis by (simp add: classtoemotion_def)
next
  case (Some v)
  then have "(i, v) \<in> set label_items" unfolding label_map_def by (rule map_of_SomeD)
  then have "v \<in> snd ` set label_items" by force
  with Some show ?thesis by (simp add: classtoemotion_def)
qed

lemma try_body_label:
  "try_body E m tmp_path fs = Inr l \<Longrightarrow> l \<in> snd ` set label_items \<or> l = ''unknown''"
  using classtoemotion_range
  by (auto simp: try_body_def infer_def split: sum.splits)

lemma write_chunks_ok:
  "write_chunks E p cs w = (None, r) \<Longrightarrow> r = w @ concat cs"
proof (induction cs arbitrary: w)
  case Nil
  then show ?case by simp
next
  case (Cons c cs)
  from Cons.prems have "write_chunks E p cs (w @ c) = (None, r)"
    by (simp split: option.splits)
  from Cons.IH[OF this] show ?case by simp
qed

lemma write_chunks_no_error:
  "(\<And>w c. write_error E p w c = None) \<Longrightarrow> fst (write_chunks E p cs w) = None"
  by (induction cs arbitrary: w) auto

lemma save_upload_ok:
  assumes "fst (save_upload E p cs fs) = None"
  shows "save_upload E p cs fs = (None, fs(p \<mapsto> concat cs))"
proof -
  obtain x w where wc: "write_chunks E p cs [] = (x, w)"
    by (cases "write_chunks E p cs []")
  from assms wc have ok: "open_error E p = None" "x = None" "close_error E p w = None"
    by (auto simp: save_upload_def split: option.splits)
  from wc ok(2) have "w = concat cs" using write_chunks_ok[of E p cs "[]" w] by simp
  with wc ok show ?thesis by (simp add: save_upload_def)
qed

lemma save_upload_failure:
  assumes "fst (save_upload E p cs fs) = Some e"
  shows "(open_error E p = Some e \<and> snd (save_upload E p cs fs) = fs) \<or>
         (open_error E p = None \<and> (\<exists>written. snd (save_upload E p cs fs) = fs(p \<mapsto> written)))"
  using assms by (auto simp: save_upload_def split: option.splits prod.splits)

lemma example_env_saves: "fst (save_upload (example_env v l) p cs fs) = None"
proof -
  have "fst (write_chunks (example_env v l) p cs []) = None"
    by (rule write_chunks_no_error) (simp add: example_env_def)
  then show ?thesis
    by (auto simp: save_upload_def example_env_def split: option.splits prod.splits)
qed

lemma post_no_file:
  "not_file (FILES request ''file'') \<Longrightarrow>
   post E self request fs =
     (Inr (Response [(''error'', ''No audio file provided'')] HTTP_400_BAD_REQUEST), fs)"
  by (simp add: post_def)

lemma post_save_failure:
  assumes "FILES request ''file'' = Some f" "name f \<noteq> []"
    and "fst (save_upload E (os_path_join (MEDIA_ROOT E) (name f)) (chunks f) fs) = Some e"
  shows "post E self request fs =
           (Inl e, snd (save_upload E (os_path_join (MEDIA_ROOT E) (name f)) (chunks f) fs))"
  using assms by (auto simp: post_def not_file_def Let_def split: prod.splits option.splits)

lemma post_with_file:
  assumes "FILES request ''file'' = Some f" "name f \<noteq> []"
    and "fst (save_upload E (os_path_join (MEDIA_ROOT E) (name f)) (chunks f) fs) = None"
  shows "post E self request fs =
     (let tmp_path = os_path_join (MEDIA_ROOT E) (name f);
          r = try_body E (model self) tmp_path (fs(tmp_path \<mapsto> concat (chunks f)))
      in (case r of
            Inr emotion_label \<Rightarrow> Inr (Response [(''prediction'', emotion_label)] HTTP_200_OK)
          | Inl (PyException e) \<Rightarrow> Inr (Response [(''error'', e)] HTTP_400_BAD_REQUEST)
          | Inl (PyBaseException e) \<Rightarrow> Inl (PyBaseException e),
          fs(tmp_path := None)))"
  using assms(1,2) save_upload_ok[OF assms(3)]
  by (simp add: post_def not_file_def Let_def split: sum.splits py_exn.splits)

lemma post_response_cases:
  assumes "fst (post E self request fs) = Inr r"
  shows "(status r = HTTP_200_OK \<and>
          (\<exists>l. body r = [(''prediction'', l)] \<and> (l \<in> snd ` set label_items \<or> l = ''unknown''))) \<or>
         (status r = HTTP_400_BAD_REQUEST \<and> (\<exists>m. body r = [(''error'', m)]))"
proof (cases "not_file (FILES request ''file'')")
  case True
  with assms show ?thesis by (auto simp: post_no_file Response_def)
next
  case False
  then obtain f where f: "FILES request ''file'' = Some f" "name f \<noteq> []"
    by (auto simp: not_file_def split: option.splits)
  let ?tmp = "os_path_join (MEDIA_ROOT E) (name f)"
  let ?r = "try_body E (model self) ?tmp (fs(?tmp \<mapsto> concat (chunks f)))"
  show ?thesis
  proof (cases "fst (save_upload E ?tmp (chunks f) fs)")
    case (Some e)
    with assms show ?thesis by (simp add: post_save_failure[OF f Some])
  next
    case None
    show ?thesis
    proof (cases ?r)
      case (Inr l)
      have l: "l \<in> snd ` set label_items \<or> l = ''unknown''"
        by (rule try_body_label[OF Inr])
      have "r = Response [(''prediction'', l)] HTTP_200_OK"
        using assms Inr by (simp add: post_with_file[OF f None] Let_def)
      with l show ?thesis by (simp add: Response_def)
    next
      case (Inl e)
      with assms show ?thesis
        by (cases e) (auto simp: post_with_file[OF f None] Let_def Response_def)
    qed
  qed
qed

text \<open>
  Claim C6 as stated fails. Not every failed request is answered with the dictionary
  \<open>error\<close>: when the temporary file cannot be opened the exception leaves the
  handler before the \<open>try\<close> statement, and an exception that is not an
  \<open>Exception\<close>, such as the \<open>SystemExit\<close> of a stopped worker, passes the
  \<open>except\<close> clause. In both runs the handler returns no response.
\<close>

theorem unanswered_failure_counterexample:
  "fst (post read_only_env \<lparr>model = example_model\<rparr>
          (upload ''a.wav'' [wav_header_only]) Map.empty) =
     Inl (PyException ''[Errno 13] Permission denied: /srv/media/a.wav'') \<and>
   fst (post stopped_worker_env \<lparr>model = example_model\<rparr>
          (upload ''a.wav'' [wav_header_only]) Map.empty) =
     Inl (PyBaseException ''SystemExit'')"
  by code_simp

text \<open>
  Claim C6, as the code has it. The outcome of the request decides the response. A
  request without a file is answered with the dictionary \<open>error\<close> bound to
  \<open>No audio file provided\<close> and status 400. For a request whose upload has been
  saved: when the \<open>try\<close> block completes with a label, the response is exactly the
  dictionary \<open>prediction\<close> bound to that label, a string of the table or
  \<open>unknown\<close>, with status 200; when the block raises an \<open>Exception\<close>, the
  response is exactly the dictionary \<open>error\<close> bound to its message, with status
  400; when the block raises an exception that is not an \<open>Exception\<close>, that
  exception leaves the handler. And every response the handler returns, for any
  request, has one of these two shapes.
\<close>

theorem post_response_by_outcome:
  "(not_file (FILES request ''file'') \<longrightarrow>
      fst (post E self request fs) =
        Inr (Response [(''error'', ''No audio file provided'')] HTTP_400_BAD_REQUEST)) \<and>
   (FILES request ''file'' = Some f \<and> name f \<noteq> [] \<and>
    fst (save_upload E (os_path_join (MEDIA_ROOT E) (name f)) (chunks f) fs) = None \<longrightarrow>
      (try_body E (model self) (os_path_join (MEDIA_ROOT E) (name f))
         (fs(os_path_join (MEDIA_ROOT E) (name f) \<mapsto> concat (chunks f))) = Inr l \<longrightarrow>
         fst (post E self request fs) = Inr (Response [(''prediction'', l)] HTTP_200_OK) \<and>
         (l \<in> snd ` set label_items \<or> l = ''unknown'')) \<and>
      (try_body E (model self) (os_path_join (MEDIA_ROOT E) (name f))
         (fs(os_path_join (MEDIA_ROOT E) (name f) \<mapsto> concat (chunks f))) = Inl (PyException m) \<longrightarrow>
         fst (post E self request fs) = Inr (Response [(''error'', m)] HTTP_400_BAD_REQUEST)) \<and>
      (try_body E (model self) (os_path_join (MEDIA_ROOT E) (name f))
         (fs(os_path_join (MEDIA_ROOT E) (name f) \<mapsto> concat (chunks f))) = Inl (PyBaseException b) \<longrightarrow>
         fst (post E self request fs) = Inl (PyBaseException b))) \<and>
   (fst (post E self request fs) = Inr r \<longrightarrow>
      (status r = HTTP_200_OK \<and>
       (\<exists>l. body r = [(''prediction'', l)] \<and> (l \<in> snd ` set label_items \<or> l = ''unknown''))) \<or>
      (status r = HTTP_400_BAD_REQUEST \<and> (\<exists>m. body r = [(''error'', m)])))"
proof (intro conjI impI)
  assume "not_file (FILES request ''file'')"
  then show "fst (post E self request fs) =
      Inr (Response [(''error'', ''No audio file provided'')] HTTP_400_BAD_REQUEST)"
    by (simp add: post_no_file)
next
  assume a: "FILES request ''file'' = Some f \<and> name f \<noteq> [] \<and>
    fst (save_upload E (os_path_join (MEDIA_ROOT E) (name f)) (chunks f) fs) = None"
    and t: "try_body E (model self) (os_path_join (MEDIA_ROOT E) (name f))
         (fs(os_path_join (MEDIA_ROOT E) (name f) \<mapsto> concat (chunks f))) = Inr l"
  from a t show "fst (post E self request fs) = Inr (Response [(''prediction'', l)] HTTP_200_OK)"
    by (simp add: post_with_file Let_def)
  from t show "l \<in> snd ` set label_items \<or> l = ''unknown''" by (rule try_body_label)
next
  assume a: "FILES request ''file'' = Some f \<and> name f \<noteq> [] \<and>
    fst (save_upload E (os_path_join (MEDIA_ROOT E) (name f)) (chunks f) fs) = None"
    and t: "try_body E (model self) (os_path_join (MEDIA_ROOT E) (name f))
         (fs(os_path_join (MEDIA_ROOT E) (name f) \<mapsto> concat (chunks f))) = Inl (PyException m)"
  from a t show "fst (post E self request fs) = Inr (Response [(''error'', m)] HTTP_400_BAD_REQUEST)"
    by (simp add: post_with_file Let_def)
next
  assume a: "FILES request ''file'' = Some f \<and> name f \<noteq> [] \<and>
    fst (save_upload E (os_path_join (MEDIA_ROOT E) (name f)) (chunks f) fs) = None"
    and t: "try_body E (model self) (os_path_join (MEDIA_ROOT E) (name f))
         (fs(os_path_join (MEDIA_ROOT E) (name f) \<mapsto> concat (chunks f))) = Inl (PyBaseException b)"
  from a t show "fst (post E self request fs) = Inl (PyBaseException b)"
    by (simp add: post_with_file Let_def)
next
  assume "fst (post E self request fs) = Inr r"
  then show "(status r = HTTP_200_OK \<and>
       (\<exists>l. body r = [(''prediction'', l)] \<and> (l \<in> snd ` set label_items \<or> l = ''unknown''))) \<or>
      (status r = HTTP_400_BAD_REQUEST \<and> (\<exists>m. body r = [(''error'', m)]))"
    by (rule post_response_cases)
qed

lemma example_try_bodies:
  "try_body (example_env Before_1_18 l) example_model ''/srv/media/a.wav''
     (Map.empty(''/srv/media/a.wav'' \<mapsto> wav_header_only @ [0x12, 0x34])) = Inr ''neutral''"
  "try_body (example_env Before_1_18 l) example_model ''/srv/media/empty.wav''
     (Map.empty(''/srv/media/empty.wav'' \<mapsto> [])) = Inl (PyException ''Format not recognised.'')"
  "try_body stopped_worker_env example_model ''/srv/media/a.wav''
     (Map.empty(''/srv/media/a.wav'' \<mapsto> wav_header_only)) = Inl (PyBaseException ''SystemExit'')"
  by code_simp+

lemma example_paths:
  "os_path_join (MEDIA_ROOT (example_env v l)) ''a.wav'' = ''/srv/media/a.wav''"
  "os_path_join (MEDIA_ROOT (example_env v l)) ''empty.wav'' = ''/srv/media/empty.wav''"
  "os_path_join (MEDIA_ROOT stopped_worker_env) ''a.wav'' = ''/srv/media/a.wav''"
  "os_path_join (MEDIA_ROOT read_only_env) ''a.wav'' = ''/srv/media/a.wav''"
  "os_path_join (MEDIA_ROOT full_disk_env) ''a.wav'' = ''/srv/media/a.wav''"
  by (simp_all add: example_env_def stopped_worker_env_def read_only_env_def full_disk_env_def
        os_path_join_def)

lemma stopped_worker_env_saves: "fst (save_upload stopped_worker_env p cs fs) = None"
proof -
  have "fst (write_chunks stopped_worker_env p cs []) = None"
    by (rule write_chunks_no_error) (simp add: stopped_worker_env_def example_env_def)
  then show ?thesis
    by (auto simp: save_upload_def stopped_worker_env_def example_env_def
             split: option.splits prod.splits)
qed

theorem post_response_by_outcome_witness:
  "fst (post (example_env Before_1_18 (Inr example_model)) \<lparr>model = example_model\<rparr>
          \<lparr>FILES = Map.empty\<rparr> Map.empty) =
     Inr (Response [(''error'', ''No audio file provided'')] HTTP_400_BAD_REQUEST) \<and>
   fst (post (example_env Before_1_18 (Inr example_model)) \<lparr>model = example_model\<rparr>
          (upload ''a.wav'' [wav_header_only, [0x12, 0x34]]) Map.empty) =
     Inr (Response [(''prediction'', ''neutral'')] HTTP_200_OK) \<and>
   fst (post (example_env Before_1_18 (Inr example_model)) \<lparr>model = example_model\<rparr>
          (upload ''empty.wav'' []) Map.empty) =
     Inr (Response [(''error'', ''Format not recognised.'')] HTTP_400_BAD_REQUEST) \<and>
   fst (post stopped_worker_env \<lparr>model = example_model\<rparr>
          (upload ''a.wav'' [wav_header_only]) Map.empty) =
     Inl (PyBaseException ''SystemExit'') \<and>
   ((status (Response [(''prediction'', ''neutral'')] HTTP_200_OK) = HTTP_200_OK \<and>
     (\<exists>l. body (Response [(''prediction'', ''neutral'')] HTTP_200_OK) = [(''prediction'', l)] \<and>
          (l \<in> snd ` set label_items \<or> l = ''unknown''))) \<or>
    (status (Response [(''prediction'', ''neutral'')] HTTP_200_OK) = HTTP_400_BAD_REQUEST \<and>
     (\<exists>m. body (Response [(''prediction'', ''neutral'')] HTTP_200_OK) = [(''error'', m)])))"
proof -
  let ?E = "example_env Before_1_18 (Inr example_model)"
  let ?self = "\<lparr>model = example_model\<rparr>"
  let ?fa = "\<lparr>name = ''a.wav'', chunks = [wav_header_only, [0x12, 0x34]]\<rparr>"
  let ?fe = "\<lparr>name = ''empty.wav'', chunks = []\<rparr>"
  let ?fs = "\<lparr>name = ''a.wav'', chunks = [wav_header_only]\<rparr>"
  have none: "not_file (FILES \<lparr>FILES = Map.empty\<rparr> ''file'')" by (simp add: not_file_def)
  from post_response_by_outcome[where E = ?E and self = ?self
      and request = "\<lparr>FILES = Map.empty\<rparr>" and fs = Map.empty] none
  have 1: "fst (post ?E ?self \<lparr>FILES = Map.empty\<rparr> Map.empty) =
      Inr (Response [(''error'', ''No audio file provided'')] HTTP_400_BAD_REQUEST)"
    by blast
  have ha: "FILES (upload ''a.wav'' [wav_header_only, [0x12, 0x34]]) ''file'' = Some ?fa \<and>
      name ?fa \<noteq> [] \<and>
      fst (save_upload ?E (os_path_join (MEDIA_ROOT ?E) (name ?fa)) (chunks ?fa) Map.empty) = None"
    by (simp add: upload_def example_env_saves)
  have ta: "try_body ?E (model ?self) (os_path_join (MEDIA_ROOT ?E) (name ?fa))
      (Map.empty(os_path_join (MEDIA_ROOT ?E) (name ?fa) \<mapsto> concat (chunks ?fa))) = Inr ''neutral''"
    using example_try_bodies(1)[of "Inr example_model"] by (simp add: example_paths)
  from post_response_by_outcome[where E = ?E and self = ?self
      and request = "upload ''a.wav'' [wav_header_only, [0x12, 0x34]]" and fs = Map.empty
      and f = ?fa and l = "''neutral''"] ha ta
  have 2: "fst (post ?E ?self (upload ''a.wav'' [wav_header_only, [0x12, 0x34]]) Map.empty) =
      Inr (Response [(''prediction'', ''neutral'')] HTTP_200_OK)"
    by blast
  have he: "FILES (upload ''empty.wav'' []) ''file'' = Some ?fe \<and> name ?fe \<noteq> [] \<and>
      fst (save_upload ?E (os_path_join (MEDIA_ROOT ?E) (name ?fe)) (chunks ?fe) Map.empty) = None"
    by (simp add: upload_def example_env_saves)
  have te: "try_body ?E (model ?self) (os_path_join (MEDIA_ROOT ?E) (name ?fe))
      (Map.empty(os_path_join (MEDIA_ROOT ?E) (name ?fe) \<mapsto> concat (chunks ?fe))) =
      Inl (PyException ''Format not recognised.'')"
    using example_try_bodies(2)[of "Inr example_model"] by (simp add: example_paths)
  from post_response_by_outcome[where E = ?E and self = ?self
      and request = "upload ''empty.wav'' []" and fs = Map.empty
      and f = ?fe and m = "''Format not recognised.''"] he te
  have 3: "fst (post ?E ?self (upload ''empty.wav'' []) Map.empty) =
      Inr (Response [(''error'', ''Format not recognised.'')] HTTP_400_BAD_REQUEST)"
    by blast
  have hs: "FILES (upload ''a.wav'' [wav_header_only]) ''file'' = Some ?fs \<and> name ?fs \<noteq> [] \<and>
      fst (save_upload stopped_worker_env (os_path_join (MEDIA_ROOT stopped_worker_env) (name ?fs))
             (chunks ?fs) Map.empty) = None"
    by (simp add: upload_def stopped_worker_env_saves)
  have ts: "try_body stopped_worker_env (model ?self)
      (os_path_join (MEDIA_ROOT stopped_worker_env) (name ?fs))
      (Map.empty(os_path_join (MEDIA_ROOT stopped_worker_env) (name ?fs) \<mapsto> concat (chunks ?fs))) =
      Inl (PyBaseException ''SystemExit'')"
    using example_try_bodies(3) by (simp add: example_paths)
  from post_response_by_outcome[where E = stopped_worker_env and self = ?self
      and request = "upload ''a.wav'' [wav_header_only]" and fs = Map.empty
      and f = ?fs and b = "''SystemExit''"] hs ts
  have 4: "fst (post stopped_worker_env ?self (upload ''a.wav'' [wav_header_only]) Map.empty) =
      Inl (PyBaseException ''SystemExit'')"
    by blast
  have 5: "(status (Response [(''prediction'', ''neutral'')] HTTP_200_OK) = HTTP_200_OK \<and>
     (\<exists>l. body (Response [(''prediction'', ''neutral'')] HTTP_200_OK) = [(''prediction'', l)] \<and>
          (l \<in> snd ` set label_items \<or> l = ''unknown''))) \<or>
    (status (Response [(''prediction'', ''neutral'')] HTTP_200_OK) = HTTP_400_BAD_REQUEST \<and>
     (\<exists>m. body (Response [(''prediction'', ''neutral'')] HTTP_200_OK) = [(''error'', m)]))"
    by (rule post_response_by_outcome[where E = ?E and self = ?self
          and request = "upload ''a.wav'' [wav_header_only, [0x12, 0x34]]" and fs = Map.empty
          and r = "Response [(''prediction'', ''neutral'')] HTTP_200_OK",
          THEN conjunct2, THEN conjunct2, THEN mp, OF 2])
  show ?thesis by (intro conjI 1 2 3 4 5)
qed

subsection \<open>The temporary file\<close>

text \<open>
  Claim C10. The claim is that no request leaves its temporary file behind, on any
  error path. Once the upload has been saved, the \<open>finally\<close> clause removes the
  file on every way out of the \<open>try\<close> statement, and the file system is otherwise
  as before the request. But the file is opened and written before the \<open>try\<close>
  statement. When \<open>open\<close> raises, no file is made. When \<open>open\<close> has made the
  file and a write or the closing of the file raises, the exception leaves the handler
  past the \<open>finally\<close> clause: the file, with what was written, stays in the media
  directory.
\<close>

theorem post_temporary_file:
  assumes "FILES request ''file'' = Some f" "name f \<noteq> []"
  shows
    "(fst (save_upload E (os_path_join (MEDIA_ROOT E) (name f)) (chunks f) fs) = None \<longrightarrow>
        snd (post E self request fs) = fs(os_path_join (MEDIA_ROOT E) (name f) := None)) \<and>
     (open_error E (os_path_join (MEDIA_ROOT E) (name f)) = Some e \<longrightarrow>
        post E self request fs = (Inl e, fs)) \<and>
     (open_error E (os_path_join (MEDIA_ROOT E) (name f)) = None \<and>
      fst (save_upload E (os_path_join (MEDIA_ROOT E) (name f)) (chunks f) fs) = Some e \<longrightarrow>
        fst (post E self request fs) = Inl e \<and>
        snd (post E self request fs) (os_path_join (MEDIA_ROOT E) (name f)) \<noteq> None)"
proof (intro conjI impI)
  assume "fst (save_upload E (os_path_join (MEDIA_ROOT E) (name f)) (chunks f) fs) = None"
  then show "snd (post E self request fs) = fs(os_path_join (MEDIA_ROOT E) (name f) := None)"
    by (simp add: post_with_file[OF assms] Let_def)
next
  assume o: "open_error E (os_path_join (MEDIA_ROOT E) (name f)) = Some e"
  then have "save_upload E (os_path_join (MEDIA_ROOT E) (name f)) (chunks f) fs = (Some e, fs)"
    by (simp add: save_upload_def)
  then show "post E self request fs = (Inl e, fs)"
    using post_save_failure[OF assms, where E = E and fs = fs and e = e and self = self] by simp
next
  assume a: "open_error E (os_path_join (MEDIA_ROOT E) (name f)) = None \<and>
      fst (save_upload E (os_path_join (MEDIA_ROOT E) (name f)) (chunks f) fs) = Some e"
  then have p: "post E self request fs =
      (Inl e, snd (save_upload E (os_path_join (MEDIA_ROOT E) (name f)) (chunks f) fs))"
    using post_save_failure[OF assms] by blast
  then show "fst (post E self request fs) = Inl e" by simp
  from save_upload_failure[of E "os_path_join (MEDIA_ROOT E) (name f)" "chunks f" fs e] a
  obtain written where
    "snd (save_upload E (os_path_join (MEDIA_ROOT E) (name f)) (chunks f) fs) =
       fs(os_path_join (MEDIA_ROOT E) (name f) \<mapsto> written)"
    by auto
  with p show "snd (post E self request fs) (os_path_join (MEDIA_ROOT E) (name f)) \<noteq> None"
    by simp
qed

lemma full_disk_save:
  "open_error full_disk_env ''/srv/media/a.wav'' = None"
  "fst (save_upload full_disk_env ''/srv/media/a.wav'' [wav_header_only, [0x12, 0x34]] Map.empty) =
     Some (PyException ''[Errno 28] No space left on device'')"
  "snd (save_upload full_disk_env ''/srv/media/a.wav'' [wav_header_only, [0x12, 0x34]] Map.empty)
     ''/srv/media/a.wav'' = Some wav_header_only"
  by code_simp+

theorem post_temporary_file_witness:
  "snd (post (example_env Before_1_18 (Inr example_model)) \<lparr>model = example_model\<rparr>
          (upload ''a.wav'' [wav_header_only]) [''/srv/media/kept.wav'' \<mapsto> [1, 2]])
       ''/srv/media/a.wav'' = None \<and>
   snd (post (example_env Before_1_18 (Inr example_model)) \<lparr>model = example_model\<rparr>
          (upload ''a.wav'' [wav_header_only]) [''/srv/media/kept.wav'' \<mapsto> [1, 2]])
       ''/srv/media/kept.wav'' = Some [1, 2] \<and>
   post read_only_env \<lparr>model = example_model\<rparr> (upload ''a.wav'' [wav_header_only]) Map.empty =
     (Inl (PyException ''[Errno 13] Permission denied: /srv/media/a.wav''), Map.empty) \<and>
   fst (post full_disk_env \<lparr>model = example_model\<rparr>
          (upload ''a.wav'' [wav_header_only, [0x12, 0x34]]) Map.empty) =
     Inl (PyException ''[Errno 28] No space left on device'') \<and>
   snd (post full_disk_env \<lparr>model = example_model\<rparr>
          (upload ''a.wav'' [wav_header_only, [0x12, 0x34]]) Map.empty) ''/srv/media/a.wav'' \<noteq> None"
proof -
  let ?E = "example_env Before_1_18 (Inr example_model)"
  let ?self = "\<lparr>model = example_model\<rparr>"
  let ?f = "\<lparr>name = ''a.wav'', chunks = [wav_header_only]\<rparr>"
  let ?g = "\<lparr>name = ''a.wav'', chunks = [wav_header_only, [0x12, 0x34]]\<rparr>"
  let ?kept = "[''/srv/media/kept.wav'' \<mapsto> [1, 2]] :: filesystem"
  have f: "FILES (upload ''a.wav'' [wav_header_only]) ''file'' = Some ?f" "name ?f \<noteq> []"
    by (simp_all add: upload_def)
  have g: "FILES (upload ''a.wav'' [wav_header_only, [0x12, 0x34]]) ''file'' = Some ?g"
    "name ?g \<noteq> []"
    by (simp_all add: upload_def)
  have saved: "fst (save_upload ?E (os_path_join (MEDIA_ROOT ?E) (name ?f)) (chunks ?f) ?kept) = None"
    by (rule example_env_saves)
  from post_temporary_file[OF f, where E = ?E and fs = ?kept and self = ?self] saved
  have "snd (post ?E ?self (upload ''a.wav'' [wav_header_only]) ?kept) =
          ?kept(os_path_join (MEDIA_ROOT ?E) (name ?f) := None)"
    by blast
  then have 1: "snd (post ?E ?self (upload ''a.wav'' [wav_header_only]) ?kept) =
          ?kept(''/srv/media/a.wav'' := None)"
    by (simp add: example_paths)
  have denied: "open_error read_only_env (os_path_join (MEDIA_ROOT read_only_env) (name ?f)) =
      Some (PyException ''[Errno 13] Permission denied: /srv/media/a.wav'')"
    by (simp add: example_paths) (simp add: read_only_env_def)
  from post_temporary_file[OF f, where E = read_only_env and fs = Map.empty and self = ?self
      and e = "PyException ''[Errno 13] Permission denied: /srv/media/a.wav''"] denied
  have 2: "post read_only_env ?self (upload ''a.wav'' [wav_header_only]) Map.empty =
      (Inl (PyException ''[Errno 13] Permission denied: /srv/media/a.wav''), Map.empty)"
    by blast
  have full: "open_error full_disk_env (os_path_join (MEDIA_ROOT full_disk_env) (name ?g)) = None \<and>
      fst (save_upload full_disk_env (os_path_join (MEDIA_ROOT full_disk_env) (name ?g))
             (chunks ?g) Map.empty) = Some (PyException ''[Errno 28] No space left on device'')"
    using full_disk_save(1,2) by (simp add: example_paths)
  from post_temporary_file[OF g, where E = full_disk_env and fs = Map.empty and self = ?self
      and e = "PyException ''[Errno 28] No space left on device''"] full
  have 3: "fst (post full_disk_env ?self (upload ''a.wav'' [wav_header_only, [0x12, 0x34]]) Map.empty) =
        Inl (PyException ''[Errno 28] No space left on device'') \<and>
      snd (post full_disk_env ?self (upload ''a.wav'' [wav_header_only, [0x12, 0x34]]) Map.empty)
        (os_path_join (MEDIA_ROOT full_disk_env) (name ?g)) \<noteq> None"
    by blast
  from 1 2 3 show ?thesis by (simp add: example_paths)
qed

subsection \<open>Feature extraction\<close>

text \<open>
  The MFCC matrix of a mono signal has one row for each coefficient and one column for
  each frame. Its transpose averaged over the first axis is a vector with one entry for
  each coefficient, an array of rank 1.
\<close>

lemma AxisError_2_2: "AxisError 2 2 = PyException ''axis 2 is out of bounds for array of dimension 2''"
  by (simp add: AxisError_def digit_char_def)

lemma mean_T_shape:
  "shape m = [k, t] \<Longrightarrow> \<exists>mfccs. np_mean_axis0 (np_T m) = Inr mfccs \<and> shape mfccs = [k] \<and>
     length (data mfccs) = k"
  by (simp add: np_mean_axis0_def np_T_def)

lemma extract_features_Since_1_18:
  assumes "numpy E = Since_1_18" "fs tmp_path = Some content"
    and "librosa_load E tmp_path content = Inr (samples, sr)"
    and "librosa_feature_mfcc E samples sr 40 = Inr m" "shape m = [k, t]"
  shows "extract_features E tmp_path fs = Inl (AxisError 2 2)"
proof -
  from mean_T_shape[OF assms(5)] obtain mfccs where
    m: "np_mean_axis0 (np_T m) = Inr mfccs" "shape mfccs = [k]" by blast
  have "np_expand_dims Since_1_18 mfccs 2 = Inl (AxisError 2 2)"
    using m(2) by (simp add: np_expand_dims_def numeral_2_eq_2)
  then show ?thesis
    using assms(1-4) m(1) by (simp add: extract_features_def)
qed

text \<open>
  The transpose of a matrix, index by index, and the averages of its rows: entry \<open>j\<close>
  of the averaged vector is the mean of row \<open>j\<close> of the MFCC matrix over its frames.
\<close>

lemma nth_concat_uniform:
  "\<forall>xs\<in>set xss. length xs = n \<Longrightarrow> i < length xss \<Longrightarrow> j < n \<Longrightarrow>
   concat xss ! (i * n + j) = xss ! i ! j"
proof (induction xss arbitrary: i)
  case Nil
  then show ?case by simp
next
  case (Cons xs xss)
  have len: "length xs = n" using Cons.prems(1) by simp
  show ?case
  proof (cases i)
    case 0
    then show ?thesis using len Cons.prems(3) by (simp add: nth_append)
  next
    case (Suc i')
    have "concat xss ! (i' * n + j) = xss ! i' ! j"
      using Cons.IH[of i'] Cons.prems Suc by simp
    then show ?thesis using len Suc by (simp add: nth_append)
  qed
qed

lemma indices_rank1: "indices [b] = map (\<lambda>j. [j]) [0..<b]"
proof -
  have "concat (map (\<lambda>i. [[i]]) xs) = map (\<lambda>j. [j]) xs" for xs :: "nat list"
    by (induction xs) auto
  then show ?thesis by simp
qed

lemma indices_rank2:
  assumes "i < a" "j < b"
  shows "indices [a, b] ! (i * b + j) = [i, j]" and "length (indices [a, b]) = a * b"
proof -
  let ?xss = "map (\<lambda>i. map ((#) i) (indices [b])) [0..<a]"
  have ind: "indices [a, b] = concat ?xss" by simp
  have u: "\<forall>xs\<in>set ?xss. length xs = b" by (auto simp: indices_rank1)
  have "concat ?xss ! (i * b + j) = ?xss ! i ! j"
    using nth_concat_uniform[OF u, of i j] assms by simp
  also have "\<dots> = [i, j]" using assms by (simp add: indices_rank1)
  finally show "indices [a, b] ! (i * b + j) = [i, j]" using ind by simp
  have "length (concat ?xss) = a * b"
    by (simp add: length_concat indices_rank1 comp_def sum_list_triv)
  then show "length (indices [a, b]) = a * b" using ind by simp
qed

lemma np_T_rank2:
  assumes "shape m = [k, t]" "i < t" "j < k"
  shows "data (np_T m) ! (i * k + j) = data m ! (j * t + i)"
proof -
  have "i * k + j < t * k"
  proof -
    have "i * k + j < i * k + k" using assms(3) by simp
    also have "\<dots> = Suc i * k" by simp
    also have "\<dots> \<le> t * k" using assms(2) by (intro mult_le_mono1) simp
    finally show ?thesis .
  qed
  then have lt: "i * k + j < length (indices [t, k])"
    using indices_rank2(2)[OF assms(2,3)] by simp
  have "data (np_T m) ! (i * k + j) =
          data m ! offset [k, t] (rev (indices [t, k] ! (i * k + j)))"
    using lt assms(1) by (simp add: np_T_def del: indices.simps)
  also have "\<dots> = data m ! offset [k, t] [j, i]"
    using indices_rank2(1)[OF assms(2,3)] by simp
  also have "\<dots> = data m ! (j * t + i)" by (simp add: offset_def)
  finally show ?thesis .
qed

lemma mean_T_rows:
  assumes "shape m = [k, t]"
  shows "\<exists>mfccs. np_mean_axis0 (np_T m) = Inr mfccs \<and> shape mfccs = [k] \<and>
           length (data mfccs) = k \<and>
           (\<forall>j<k. data mfccs ! j = (\<Sum>i\<leftarrow>[0..<t]. data m ! (j * t + i)) / real t)"
proof -
  let ?mfccs = "\<lparr>shape = [k],
      data = map (\<lambda>j. (\<Sum>i\<leftarrow>[0..<t]. data (np_T m) ! (i * k + j)) / real t) [0..<k]\<rparr>"
  have sh: "shape (np_T m) = [t, k]" using assms by (simp add: np_T_def)
  have eq: "np_mean_axis0 (np_T m) = Inr ?mfccs"
    using sh by (simp add: np_mean_axis0_def)
  have "data ?mfccs ! j = (\<Sum>i\<leftarrow>[0..<t]. data m ! (j * t + i)) / real t" if "j < k" for j
  proof -
    have "map (\<lambda>i. data (np_T m) ! (i * k + j)) [0..<t] = map (\<lambda>i. data m ! (j * t + i)) [0..<t]"
      using np_T_rank2[OF assms _ that] by simp
    then have "(\<Sum>i\<leftarrow>[0..<t]. data (np_T m) ! (i * k + j)) = (\<Sum>i\<leftarrow>[0..<t]. data m ! (j * t + i))"
      by (rule arg_cong)
    moreover have "data ?mfccs ! j = (\<Sum>i\<leftarrow>[0..<t]. data (np_T m) ! (i * k + j)) / real t"
      using that by simp
    ultimately show ?thesis by (simp only:)
  qed
  then show ?thesis using eq by (intro exI[of _ ?mfccs]) simp
qed

text \<open>
  Up to NumPy 1.17 the two calls of \<open>expand_dims\<close> give the shape (1, 40, 1),
  whatever the number of frames, and the 40 elements are the row means.
\<close>

lemma extract_features_Before_1_18:
  assumes "numpy E = Before_1_18" "fs tmp_path = Some content"
    and "librosa_load E tmp_path content = Inr (samples, sr)"
    and "librosa_feature_mfcc E samples sr 40 = Inr m" "shape m = [40, t]"
  shows "\<exists>features. extract_features E tmp_path fs = Inr features \<and>
           shape features = [1, 40, 1] \<and> length (data features) = 40 \<and>
           (\<forall>j<40. data features ! j = (\<Sum>i\<leftarrow>[0..<t]. data m ! (j * t + i)) / real t)"
proof -
  from mean_T_rows[OF assms(5)] obtain mfccs where
    m: "np_mean_axis0 (np_T m) = Inr mfccs" "shape mfccs = [40]" "length (data mfccs) = 40"
       "\<forall>j<40. data mfccs ! j = (\<Sum>i\<leftarrow>[0..<t]. data m ! (j * t + i)) / real t"
    by blast
  have "extract_features E tmp_path fs = Inr (mfccs\<lparr>shape := [1, 40, 1]\<rparr>)"
    using assms(1-4) m(1,2) by (simp add: extract_features_def np_expand_dims_def)
  then show ?thesis using m(3,4) by simp
qed

text \<open>
  Claim C2. The claim is that every decoded upload reaches the model as a tensor of
  shape (1, 40, 1). From NumPy 1.18 on the handler does not get that far: whenever
  decoding and the MFCC transform succeed, \<open>np.expand_dims(mfccs, axis=2)\<close> is
  applied to an array of rank 1 and raises \<open>AxisError\<close>, the \<open>except\<close> clause
  catches it, and the request is answered with status 400 and the message of that
  error. No feature tensor is built and the model is not run.
\<close>

theorem post_axis_error:
  assumes "numpy E = Since_1_18" "FILES request ''file'' = Some f" "name f \<noteq> []"
    and "fst (save_upload E (os_path_join (MEDIA_ROOT E) (name f)) (chunks f) fs) = None"
    and "librosa_load E (os_path_join (MEDIA_ROOT E) (name f)) (concat (chunks f)) = Inr (samples, sr)"
    and "librosa_feature_mfcc E samples sr 40 = Inr m" "shape m = [40, t]"
  shows "fst (post E self request fs) =
           Inr (Response [(''error'', ''axis 2 is out of bounds for array of dimension 2'')]
                  HTTP_400_BAD_REQUEST)"
proof -
  let ?tmp = "os_path_join (MEDIA_ROOT E) (name f)"
  let ?fs = "fs(?tmp \<mapsto> concat (chunks f))"
  have "?fs ?tmp = Some (concat (chunks f))" by simp
  from extract_features_Since_1_18[of E ?fs ?tmp, OF assms(1) this assms(5,6,7)]
  have "try_body E (model self) ?tmp ?fs = Inl (AxisError 2 2)"
    by (simp add: try_body_def)
  then show ?thesis
    by (simp add: post_with_file[OF assms(2,3,4)] Let_def AxisError_2_2)
qed

theorem post_axis_error_witness:
  "fst (post (example_env Since_1_18 (Inr example_model)) \<lparr>model = example_model\<rparr>
        (upload ''a.wav'' [wav_header_only, [0x12, 0x34]]) Map.empty) =
     Inr (Response [(''error'', ''axis 2 is out of bounds for array of dimension 2'')]
            HTTP_400_BAD_REQUEST)"
proof -
  let ?E = "example_env Since_1_18 (Inr example_model)"
  let ?f = "\<lparr>name = ''a.wav'', chunks = [wav_header_only, [0x12, 0x34]]\<rparr>"
  have 1: "numpy ?E = Since_1_18" by (simp add: example_env_def)
  have 2: "FILES (upload ''a.wav'' [wav_header_only, [0x12, 0x34]]) ''file'' = Some ?f"
    by (simp add: upload_def)
  have 3: "name ?f \<noteq> []" by simp
  have s: "fst (save_upload ?E (os_path_join (MEDIA_ROOT ?E) (name ?f)) (chunks ?f) Map.empty) = None"
    by (rule example_env_saves)
  have 4: "librosa_load ?E (os_path_join (MEDIA_ROOT ?E) (name ?f)) (concat (chunks ?f)) =
             Inr (map (\<lambda>b. real (unat b) / 256) (concat (chunks ?f)), 16000)"
    by (simp add: example_env_def example_load_def wav_header_only_def)
  have 5: "librosa_feature_mfcc ?E (map (\<lambda>b. real (unat b) / 256) (concat (chunks ?f))) 16000 40 =
             Inr \<lparr>shape = [40, 1], data = replicate 40 0\<rparr>"
    by (simp add: example_env_def example_mfcc_def wav_header_only_def)
  have 6: "shape \<lparr>shape = [40, 1], data = replicate 40 (0::real)\<rparr> = [40, 1]" by simp
  from post_axis_error[OF 1 2 3 s 4 5 6] show ?thesis .
qed

subsection \<open>Failures of the pipeline\<close>

lemma try_body_decode_failure:
  assumes "fs tmp_path = Some content"
    and "librosa_load E tmp_path content = Inl e \<or>
         (librosa_load E tmp_path content = Inr (samples, sr) \<and>
          librosa_feature_mfcc E samples sr 40 = Inl e)"
  shows "try_body E m tmp_path fs = Inl e"
  using assms by (auto simp: try_body_def extract_features_def)

text \<open>
  Claim C5, as the code has it. When the upload has been saved and decoding it raises an
  exception, as the decoder does on the empty byte sequence, or the MFCC transform
  raises one on the decoded samples, the handler answers with the dictionary \<open>error\<close> bound to
  \<open>str(e)\<close> and status 400, removes the temporary file and lets no exception
  through; no label is computed. The handler has no error kinds of its own and does
  not look at the number of decoded samples.
\<close>

theorem post_extraction_failure:
  assumes "FILES request ''file'' = Some f" "name f \<noteq> []"
    and "fst (save_upload E (os_path_join (MEDIA_ROOT E) (name f)) (chunks f) fs) = None"
    and "librosa_load E (os_path_join (MEDIA_ROOT E) (name f)) (concat (chunks f)) =
           Inl (PyException msg) \<or>
         (librosa_load E (os_path_join (MEDIA_ROOT E) (name f)) (concat (chunks f)) =
            Inr (samples, sr) \<and>
          librosa_feature_mfcc E samples sr 40 = Inl (PyException msg))"
  shows "post E self request fs =
           (Inr (Response [(''error'', msg)] HTTP_400_BAD_REQUEST),
            fs(os_path_join (MEDIA_ROOT E) (name f) := None))"
proof -
  let ?tmp = "os_path_join (MEDIA_ROOT E) (name f)"
  let ?fs = "fs(?tmp \<mapsto> concat (chunks f))"
  have "?fs ?tmp = Some (concat (chunks f))" by simp
  from try_body_decode_failure[of ?fs ?tmp, OF this assms(4)]
  have "try_body E (model self) ?tmp ?fs = Inl (PyException msg)" .
  then show ?thesis
    by (simp add: post_with_file[OF assms(1,2,3)] Let_def)
qed

theorem post_extraction_failure_witness:
  "post (example_env Before_1_18 (Inr example_model)) \<lparr>model = example_model\<rparr>
        (upload ''empty.wav'' []) Map.empty =
     (Inr (Response [(''error'', ''Format not recognised.'')] HTTP_400_BAD_REQUEST),
      (Map.empty :: filesystem)(''/srv/media/empty.wav'' := None))"
proof -
  let ?E = "example_env Before_1_18 (Inr example_model)"
  let ?f = "\<lparr>name = ''empty.wav'', chunks = []\<rparr>"
  have 1: "FILES (upload ''empty.wav'' []) ''file'' = Some ?f" by (simp add: upload_def)
  have 2: "name ?f \<noteq> []" by simp
  have s: "fst (save_upload ?E (os_path_join (MEDIA_ROOT ?E) (name ?f)) (chunks ?f) Map.empty) = None"
    by (rule example_env_saves)
  have 3: "librosa_load ?E (os_path_join (MEDIA_ROOT ?E) (name ?f)) (concat (chunks ?f)) =
             Inl (PyException ''Format not recognised.'')"
    by (simp add: example_env_def example_load_def)
  have 4: "os_path_join (MEDIA_ROOT ?E) (name ?f) = ''/srv/media/empty.wav''"
    by (simp add: example_env_def os_path_join_def)
  from post_extraction_failure[OF 1 2 s disjI1, OF 3, of "\<lparr>model = example_model\<rparr>"]
  show ?thesis unfolding 4 by simp
qed

text \<open>
  Claim C5 as stated fails. A stream that decodes to zero samples is not rejected by
  the handler itself: with a decoder that returns no sample for the header-only WAVE
  file, and library calls that do not raise on the empty signal, the request is
  answered with a prediction.
\<close>

theorem zero_samples_counterexample:
  "librosa_load (example_env Before_1_18 (Inr example_model)) ''/srv/media/silence.wav''
      wav_header_only = Inr ([], 16000) \<and>
   fst (post (example_env Before_1_18 (Inr example_model)) \<lparr>model = example_model\<rparr>
          (upload ''silence.wav'' [wav_header_only]) Map.empty) =
     Inr (Response [(''prediction'', ''neutral'')] HTTP_200_OK)"
  by code_simp

text \<open>
  Claim C8 as stated fails. An exception of the forward pass is answered with status
  400, which is not in the server-error class.
\<close>

theorem error_class_counterexample:
  "fst (post (example_env Before_1_18 (Inr failing_model)) \<lparr>model = failing_model\<rparr>
          (upload ''a.wav'' [wav_header_only, [0x12, 0x34]]) Map.empty) =
     Inr (Response [(''error'', ''forward pass failed'')] HTTP_400_BAD_REQUEST) \<and>
   \<not> server_error_class HTTP_400_BAD_REQUEST"
  by code_simp

lemma post_error_status:
  assumes "fst (post E self request fs) = Inr r" "body r = [(''error'', m)]"
  shows "status r = HTTP_400_BAD_REQUEST"
  using post_response_cases[OF assms(1)] assms(2) by auto

text \<open>
  Claim C8, as the code has it. Every error response of the handler has status 400, in
  the client-error class, whatever failed; an exception of the forward pass, on an
  upload that has been saved, is one of the failures answered so. A failure to load the model is raised by the constructor:
  the handler does not run and this code builds no response for it.
\<close>

theorem post_errors_are_client_errors:
  "(fst (post E self request fs) = Inr r \<and> body r = [(''error'', m)] \<longrightarrow>
      status r = HTTP_400_BAD_REQUEST \<and> client_error_class (status r)) \<and>
   (FILES request ''file'' = Some f \<and> name f \<noteq> [] \<and>
    fst (save_upload E (os_path_join (MEDIA_ROOT E) (name f)) (chunks f) fs) = None \<and>
    extract_features E (os_path_join (MEDIA_ROOT E) (name f))
      (fs(os_path_join (MEDIA_ROOT E) (name f) \<mapsto> concat (chunks f))) = Inr features \<and>
    model self features = Inl (PyException msg) \<longrightarrow>
      fst (post E self request fs) = Inr (Response [(''error'', msg)] HTTP_400_BAD_REQUEST)) \<and>
   (load_model E (model_path E) = Inl e \<longrightarrow> fst (dispatch E request p) = Inl e)"
proof (intro conjI impI)
  assume a: "fst (post E self request fs) = Inr r \<and> body r = [(''error'', m)]"
  then show s: "status r = HTTP_400_BAD_REQUEST" using post_error_status by blast
  show "client_error_class (status r)"
    unfolding s by (simp add: client_error_class_def HTTP_400_BAD_REQUEST_def)
next
  assume a: "FILES request ''file'' = Some f \<and> name f \<noteq> [] \<and>
    fst (save_upload E (os_path_join (MEDIA_ROOT E) (name f)) (chunks f) fs) = None \<and>
    extract_features E (os_path_join (MEDIA_ROOT E) (name f))
      (fs(os_path_join (MEDIA_ROOT E) (name f) \<mapsto> concat (chunks f))) = Inr features \<and>
    model self features = Inl (PyException msg)"
  then have "try_body E (model self) (os_path_join (MEDIA_ROOT E) (name f))
      (fs(os_path_join (MEDIA_ROOT E) (name f) \<mapsto> concat (chunks f))) = Inl (PyException msg)"
    by (simp add: try_body_def infer_def)
  then show "fst (post E self request fs) = Inr (Response [(''error'', msg)] HTTP_400_BAD_REQUEST)"
    using a by (simp add: post_with_file Let_def)
next
  assume "load_model E (model_path E) = Inl e"
  then show "fst (dispatch E request p) = Inl e"
    by (simp add: dispatch_def Predict_init_def)
qed

lemma example_features:
  "extract_features (example_env Before_1_18 l) ''/srv/media/a.wav''
     (Map.empty(''/srv/media/a.wav'' \<mapsto> wav_header_only @ [0x12, 0x34])) =
   Inr \<lparr>shape = [1, 40, 1], data = replicate 40 0\<rparr>"
  by code_simp

theorem post_errors_are_client_errors_witness:
  "status (Response [(''error'', ''forward pass failed'')] HTTP_400_BAD_REQUEST) =
     HTTP_400_BAD_REQUEST \<and>
   client_error_class (status (Response [(''error'', ''forward pass failed'')] HTTP_400_BAD_REQUEST)) \<and>
   fst (post (example_env Before_1_18 (Inr failing_model)) \<lparr>model = failing_model\<rparr>
          (upload ''a.wav'' [wav_header_only, [0x12, 0x34]]) Map.empty) =
     Inr (Response [(''error'', ''forward pass failed'')] HTTP_400_BAD_REQUEST) \<and>
   fst (dispatch (example_env Before_1_18 (Inl (PyException ''No file or directory found'')))
          (upload ''a.wav'' [wav_header_only]) \<lparr>files = Map.empty, load_calls = []\<rparr>) =
     Inl (PyException ''No file or directory found'')"
proof -
  let ?E = "example_env Before_1_18 (Inr failing_model)"
  let ?self = "\<lparr>model = failing_model\<rparr>"
  let ?request = "upload ''a.wav'' [wav_header_only, [0x12, 0x34]]"
  let ?f = "\<lparr>name = ''a.wav'', chunks = [wav_header_only, [0x12, 0x34]]\<rparr>"
  let ?r = "Response [(''error'', ''forward pass failed'')] HTTP_400_BAD_REQUEST"
  let ?features = "\<lparr>shape = [1, 40, 1], data = replicate 40 0\<rparr>"
  let ?e = "PyException ''No file or directory found''"
  let ?E' = "example_env Before_1_18 (Inl ?e)"
  have run: "fst (post ?E ?self ?request Map.empty) = Inr ?r" by code_simp
  have h1: "fst (post ?E ?self ?request Map.empty) = Inr ?r \<and>
            body ?r = [(''error'', ''forward pass failed'')]"
    using run by (simp add: Response_def)
  have path: "os_path_join (MEDIA_ROOT ?E) (name ?f) = ''/srv/media/a.wav''"
    by (simp add: example_env_def os_path_join_def)
  have h2: "FILES ?request ''file'' = Some ?f \<and> name ?f \<noteq> [] \<and>
            fst (save_upload ?E (os_path_join (MEDIA_ROOT ?E) (name ?f)) (chunks ?f) Map.empty) = None \<and>
            extract_features ?E (os_path_join (MEDIA_ROOT ?E) (name ?f))
              (Map.empty(os_path_join (MEDIA_ROOT ?E) (name ?f) \<mapsto> concat (chunks ?f))) =
              Inr ?features \<and>
            model ?self ?features = Inl (PyException ''forward pass failed'')"
    unfolding path using example_features[of "Inr failing_model"]
    by (simp add: upload_def failing_model_def example_env_saves)
  have h3: "load_model ?E' (model_path ?E') = Inl ?e" by (simp add: example_env_def)
  from post_errors_are_client_errors
         [where E = ?E and self = ?self and request = ?request and fs = Map.empty
            and r = ?r and m = "''forward pass failed''" and f = ?f
            and features = ?features and msg = "''forward pass failed''"] h1 h2
  have a: "status ?r = HTTP_400_BAD_REQUEST \<and> client_error_class (status ?r)"
    and b: "fst (post ?E ?self ?request Map.empty) = Inr ?r"
    by blast+
  from post_errors_are_client_errors
         [where E = ?E' and e = ?e and request = "upload ''a.wav'' [wav_header_only]"
            and p = "\<lparr>files = Map.empty, load_calls = []\<rparr>"] h3
  have c: "fst (dispatch ?E' (upload ''a.wav'' [wav_header_only])
             \<lparr>files = Map.empty, load_calls = []\<rparr>) = Inl ?e"
    by blast
  from a b c show ?thesis by blast
qed

subsection \<open>Loading the model\<close>

lemma dispatch_load_calls:
  "load_calls (snd (dispatch E request p)) = load_calls p @ [model_path E]"
  by (simp add: dispatch_def Predict_init_def split: sum.splits prod.splits)

lemma serve_load_calls:
  "load_calls (snd (serve E requests p)) = load_calls p @ replicate (length requests) (model_path E)"
proof (induction requests arbitrary: p)
  case Nil
  then show ?case by simp
next
  case (Cons request requests)
  obtain r p1 where d: "dispatch E request p = (r, p1)" by (cases "dispatch E request p")
  obtain rs p2 where s: "serve E requests p1 = (rs, p2)" by (cases "serve E requests p1")
  have "load_calls p1 = load_calls p @ [model_path E]"
    using dispatch_load_calls[of E request p] d by simp
  moreover have "load_calls p2 = load_calls p1 @ replicate (length requests) (model_path E)"
    using Cons.IH[of p1] s by simp
  ultimately show ?case using d s by (simp add: replicate_append_same)
qed

text \<open>
  Claim C7 as stated fails. Two requests run the load step twice, with a model file that
  loads and with one that does not: the second request attempts the load again.
\<close>

theorem load_once_counterexample:
  "\<not> length (load_calls (snd (serve (example_env Before_1_18 (Inr example_model))
        [upload ''a.wav'' [wav_header_only], upload ''b.wav'' [wav_header_only]]
        \<lparr>files = Map.empty, load_calls = []\<rparr>))) \<le> 1 \<and>
   load_calls (snd (serve (example_env Before_1_18 (Inl (PyException ''No file or directory found'')))
        [upload ''a.wav'' [wav_header_only], upload ''b.wav'' [wav_header_only]]
        \<lparr>files = Map.empty, load_calls = []\<rparr>)) =
     [''/srv/models/Emotion_Voice_Detection_Model.h5'',
      ''/srv/models/Emotion_Voice_Detection_Model.h5'']"
  by code_simp

text \<open>
  Claim C7, as the code has it. The class keeps no state of the model outside the view
  object: the load step runs once in the constructor of each view object, so serving
  a list of requests runs it once for each request. The handler of a request uses the
  model that the constructor of its own view object returned. When the load fails the
  constructor raises, the handler does not run, and the next request loads again.
\<close>

theorem load_per_view_object:
  "load_calls (snd (serve E requests p)) =
     load_calls p @ replicate (length requests) (model_path E) \<and>
   dispatch E request p =
     (case load_model E (model_path E) of
        Inl e \<Rightarrow> (Inl e, p\<lparr>load_calls := load_calls p @ [model_path E]\<rparr>)
      | Inr m \<Rightarrow>
          (fst (post E \<lparr>model = m\<rparr> request (files p)),
           \<lparr>files = snd (post E \<lparr>model = m\<rparr> request (files p)),
            load_calls = load_calls p @ [model_path E]\<rparr>))"
  by (simp add: serve_load_calls dispatch_def Predict_init_def split: sum.splits prod.splits)

theorem load_per_view_object_witness:
  "load_calls (snd (serve (example_env Since_1_18 (Inr example_model))
        [upload ''a.wav'' [wav_header_only], upload ''b.wav'' [], upload ''c.wav'' []]
        \<lparr>files = Map.empty, load_calls = []\<rparr>)) =
     [''/srv/models/Emotion_Voice_Detection_Model.h5'',
      ''/srv/models/Emotion_Voice_Detection_Model.h5'',
      ''/srv/models/Emotion_Voice_Detection_Model.h5'']"
proof -
  let ?E = "example_env Since_1_18 (Inr example_model)"
  let ?requests = "[upload ''a.wav'' [wav_header_only], upload ''b.wav'' [], upload ''c.wav'' []]"
  let ?p = "\<lparr>files = Map.empty, load_calls = []\<rparr>"
  have path: "model_path ?E = ''/srv/models/Emotion_Voice_Detection_Model.h5''"
    by (simp add: model_path_def example_env_def os_path_join_def)
  from load_per_view_object[of ?E ?requests ?p]
  have "load_calls (snd (serve ?E ?requests ?p)) =
          load_calls ?p @ replicate (length ?requests) (model_path ?E)"
    by (rule conjunct1)
  then show ?thesis by (simp add: path del: serve.simps)
qed

end
